theory Spec2Isabelle
  imports Main
begin

section \<open>JavaScript values\<close>

text \<open>
  A document of the ORM is an object carrying the properties the source reads from
  \<open>this\<close>: \<open>id\<close>, \<open>version\<close>, \<open>_index\<close>, \<open>_type\<close>, \<open>__origData\<close>, \<open>__data\<close> and
  \<open>execQueue\<close>.  It is kept polymorphic in the type of values so that values can
  contain documents (a populated field holds one).
\<close>

datatype 'v document = Document
  (doc_id: 'v) (doc_version: 'v) (doc_index: 'v) (doc_type: 'v)
  (origData: 'v) (data: 'v) (execQueue: "'v list")

text \<open>
  The values of the program.  \<open>Fn n\<close> is a function object of arity \<open>n\<close> (all the code
  asks of an imported function is its \<open>length\<close>), \<open>Error m\<close> is \<open>new Error(m)\<close>,
  \<open>ResultsV items queue\<close> is an instance of \<open>Results\<close>: its indexed members and its
  \<open>execQueue\<close>.
\<close>

datatype jsval =
    Undefined
  | Null
  | JBool bool
  | Num int
  | Str string
  | Fn nat
  | Error string
  | Arr "jsval list"
  | Obj "(string \<times> jsval) list"
  | DocV "jsval document"
  | ResultsV "jsval document list" "jsval list"

text \<open>JavaScript truthiness, as used by \<open>!x\<close>, \<open>x ? a : b\<close>, \<open>x && y\<close> and \<open>x || y\<close>.\<close>

definition truthy :: "jsval \<Rightarrow> bool" where
  "truthy v = (case v of
      Undefined \<Rightarrow> False
    | Null \<Rightarrow> False
    | JBool b \<Rightarrow> b
    | Num n \<Rightarrow> n \<noteq> 0
    | Str s \<Rightarrow> s \<noteq> []
    | _ \<Rightarrow> True)"

text \<open>Own-property lookup in an object literal; a missing key reads as \<open>undefined\<close>.\<close>

fun lookup :: "(string \<times> jsval) list \<Rightarrow> string \<Rightarrow> jsval" where
  "lookup [] k = Undefined"
| "lookup ((k', v) # kvs) k = (if k' = k then v else lookup kvs k)"

text \<open>\<open>o[k] = v\<close> on an object literal: overwrite in place, or append a new key.\<close>

fun put :: "(string \<times> jsval) list \<Rightarrow> string \<Rightarrow> jsval \<Rightarrow> (string \<times> jsval) list" where
  "put [] k v = [(k, v)]"
| "put ((k', v') # kvs) k v = (if k' = k then (k, v) # kvs else (k', v') # put kvs k v)"

text \<open>The \<open>i\<close>-th actual argument of a call; a missing argument reads as \<open>undefined\<close>.\<close>

definition arg :: "nat \<Rightarrow> jsval list \<Rightarrow> jsval" where
  "arg i args = (if i < length args then args ! i else Undefined)"

section \<open>The world: requests sent, callbacks invoked, exceptions thrown\<close>

datatype client_op = Index | Update | Delete | Search | Mget

text \<open>
  \<open>sent\<close> logs every call made on the external client, in order, with the parameter
  object it was given.  \<open>called\<close> logs every invocation of the caller's completion
  callback with its actual arguments (\<open>callback()\<close> is \<open>[]\<close>, \<open>callback(err)\<close> is
  \<open>[err]\<close>).  \<open>thrown\<close> logs uncaught exceptions.
\<close>

record world =
  sent :: "(client_op \<times> jsval) list"
  called :: "jsval list list"
  thrown :: "string list"

definition world0 :: world where
  "world0 = \<lparr>sent = [], called = [], thrown = []\<rparr>"

type_synonym cont = "jsval list \<Rightarrow> world \<Rightarrow> world"

text \<open>The caller's completion callback: it records how it was invoked.\<close>

definition user_cb :: cont where
  "user_cb args w = w\<lparr>called := called w @ [args]\<rparr>"

definition throw :: "string \<Rightarrow> world \<Rightarrow> world" where
  "throw msg w = w\<lparr>thrown := thrown w @ [msg]\<rparr>"

text \<open>
  An actual argument: a value, or a function of the program (a completion callback).
  An omitted argument is \<open>Val Undefined\<close>.
\<close>

datatype actual = Val jsval | Fun cont

text \<open>The test \<open>callback ? ... : ...\<close> and \<open>!callback\<close>: a function is truthy.\<close>

definition given :: "actual \<Rightarrow> bool" where
  "given a = (case a of Val v \<Rightarrow> truthy v | Fun k \<Rightarrow> True)"

text \<open>Calling an argument: calling anything but a function throws a \<open>TypeError\<close>.\<close>

definition invoke :: "actual \<Rightarrow> cont" where
  "invoke cb args w = (case cb of
      Val v \<Rightarrow> throw ''TypeError: callback is not a function'' w
    | Fun k \<Rightarrow> k args w)"

text \<open>
  The final callback of \<open>async.eachLimit\<close>, which the library first replaces by
  \<open>callback || function () {}\<close>: a missing one is tolerated.
\<close>

definition invoke_final :: "actual \<Rightarrow> cont" where
  "invoke_final cb args w = (case cb of
      Val v \<Rightarrow> (if truthy v then throw ''TypeError: callback is not a function'' w else w)
    | Fun k \<Rightarrow> k args w)"

text \<open>The \<open>i\<close>-th actual argument of a call with mixed arguments.\<close>

definition pos :: "nat \<Rightarrow> actual list \<Rightarrow> actual" where
  "pos i as = (if i < length as then as ! i else Val Undefined)"

text \<open>
  The external client.  It is a parameter: for each call it answers with the pair
  \<open>(err, response)\<close> that it passes to the completion function, which it invokes once.
\<close>

type_synonym client = "client_op \<Rightarrow> jsval \<Rightarrow> jsval \<times> jsval"

definition client_call :: "client \<Rightarrow> client_op \<Rightarrow> jsval \<Rightarrow> cont \<Rightarrow> world \<Rightarrow> world" where
  "client_call cl m params k w =
     k [fst (cl m params), snd (cl m params)] (w\<lparr>sent := sent w @ [(m, params)]\<rparr>)"

section \<open>Property reads\<close>

definition is_digit :: "char \<Rightarrow> bool" where
  "is_digit c = (48 \<le> (of_char c :: nat) \<and> (of_char c :: nat) \<le> 57)"

text \<open>An array index written as a property key: canonical decimal digits.\<close>

definition nat_of_key :: "string \<Rightarrow> nat option" where
  "nat_of_key k =
    (if k = [] then None
     else if \<not> list_all is_digit k then None
     else if hd k = CHR ''0'' \<and> 1 < length k then None
     else Some (foldl (\<lambda>a c. 10 * a + ((of_char c :: nat) - 48)) 0 k))"

definition index_of :: "jsval list \<Rightarrow> string \<Rightarrow> jsval" where
  "index_of xs k = (case nat_of_key k of
      None \<Rightarrow> Undefined
    | Some i \<Rightarrow> (if i < length xs then xs ! i else Undefined))"

text \<open>
  \<open>v[k]\<close> for a value that is neither \<open>undefined\<close> nor \<open>null\<close>.  Own properties only:
  methods inherited from the built-in prototypes are not modelled.  A document answers
  with the properties the source reads from it.
\<close>

definition prop_of :: "jsval \<Rightarrow> string \<Rightarrow> jsval" where
  "prop_of v k = (case v of
      Obj kvs \<Rightarrow> lookup kvs k
    | Arr xs \<Rightarrow> (if k = ''length'' then Num (int (length xs)) else index_of xs k)
    | Str s \<Rightarrow> (if k = ''length'' then Num (int (length s))
                else index_of (map (\<lambda>c. Str [c]) s) k)
    | Fn n \<Rightarrow> (if k = ''length'' then Num (int n) else Undefined)
    | Error m \<Rightarrow> (if k = ''message'' then Str m else Undefined)
    | DocV d \<Rightarrow>
        (if k = ''id'' then doc_id d
         else if k = ''version'' then doc_version d
         else if k = ''_index'' then doc_index d
         else if k = ''_type'' then doc_type d
         else if k = ''__origData'' then origData d
         else if k = ''__data'' then data d
         else if k = ''execQueue'' then Arr (execQueue d)
         else Undefined)
    | ResultsV ds q \<Rightarrow>
        (if k = ''length'' then Num (int (length ds))
         else if k = ''execQueue'' then Arr q
         else index_of (map DocV ds) k)
    | _ \<Rightarrow> Undefined)"

text \<open>\<open>v[k]\<close> in general: reading a property of \<open>undefined\<close> or \<open>null\<close> throws.\<close>

definition get_prop :: "jsval \<Rightarrow> string \<Rightarrow> jsval option" where
  "get_prop v k = (case v of Undefined \<Rightarrow> None | Null \<Rightarrow> None | _ \<Rightarrow> Some (prop_of v k))"

definition is_string :: "jsval \<Rightarrow> bool" where
  "is_string v = (case v of Str s \<Rightarrow> True | _ \<Rightarrow> False)"

definition is_array :: "jsval \<Rightarrow> bool" where
  "is_array v = (case v of Arr xs \<Rightarrow> True | _ \<Rightarrow> False)"


section \<open>Documents: change tracking and writes\<close>

text \<open>
  \<open>hasChanged\<close> is \<open>!!(diff && diff.length > 0)\<close>, where \<open>diff\<close> is the module-level
  binding \<open>require("deep-diff").diff\<close> and not the member \<open>this.diff\<close>.  The imported
  value is the parameter \<open>dif\<close>.
\<close>

definition js_length :: "jsval \<Rightarrow> jsval" where
  "js_length v = (case v of
      Fn n \<Rightarrow> Num (int n)
    | Str s \<Rightarrow> Num (int (length s))
    | Arr xs \<Rightarrow> Num (int (length xs))
    | Obj kvs \<Rightarrow> lookup kvs ''length''
    | ResultsV ds q \<Rightarrow> Num (int (length ds))
    | _ \<Rightarrow> Undefined)"

definition gt_zero :: "jsval \<Rightarrow> bool" where
  "gt_zero v = (case v of Num n \<Rightarrow> 0 < n | JBool b \<Rightarrow> b | _ \<Rightarrow> False)"

definition hasChanged :: "jsval \<Rightarrow> jsval document \<Rightarrow> bool" where
  "hasChanged dif this = (truthy dif \<and> gt_zero (js_length dif))"

text \<open>\<open>validate\<close> of the current module: a no-op that calls back with no argument.\<close>

definition validate :: "jsval document \<Rightarrow> actual \<Rightarrow> world \<Rightarrow> world" where
  "validate this callback w = invoke callback [] w"

definition save :: "client \<Rightarrow> jsval \<Rightarrow> jsval document \<Rightarrow> actual \<Rightarrow> world \<Rightarrow> world" where
  "save cl dif this callback w =
    (if \<not> hasChanged dif this then invoke callback [] w
     else validate this (Fun (\<lambda>args.
       if truthy (arg 0 args) then invoke callback [arg 0 args]
       else client_call cl Index
         (Obj [(''index'', doc_index this), (''type'', doc_type this),
               (''id'', doc_id this), (''body'', data this)])
         (\<lambda>args'. invoke callback [arg 0 args', DocV this]))) w)"

definition update :: "client \<Rightarrow> jsval \<Rightarrow> jsval document \<Rightarrow> jsval \<Rightarrow> actual \<Rightarrow> world \<Rightarrow> world" where
  "update cl dif this dat callback w =
    (if \<not> truthy (doc_id this)
     then invoke callback [Error ''Cannot update: no ID specified.''] w
     else if \<not> hasChanged dif this then invoke callback [] w
     else validate this (Fun (\<lambda>args.
       if truthy (arg 0 args) then invoke callback [arg 0 args]
       else client_call cl Update
         (Obj [(''index'', doc_index this), (''type'', doc_type this),
               (''id'', doc_id this), (''version'', doc_version this),
               (''body'', Obj [(''doc'', data this)])])
         (\<lambda>args'. invoke callback [arg 0 args', DocV this]))) w)"

definition remove :: "client \<Rightarrow> jsval document \<Rightarrow> actual \<Rightarrow> world \<Rightarrow> world" where
  "remove cl this callback w =
    (if \<not> truthy (doc_id this)
     then invoke callback [Error ''Cannot remove: no ID specified.''] w
     else client_call cl Delete
         (Obj [(''index'', doc_index this), (''type'', doc_type this),
               (''id'', doc_id this)])
         (\<lambda>args'. invoke callback [arg 0 args', DocV this]) w)"


text \<open>
  \<open>validate\<close> of the legacy copy of the module.  A document of the legacy copy carries
  its schema, and its constructor makes \<open>__data\<close> an object literal.
\<close>

record legacy_document =
  schema_props :: "(string \<times> jsval) list"
  field_map :: "(string \<times> jsval) list"

text \<open>
  What every object literal inherits from \<open>Object.prototype\<close>: its functions, with
  their arities, and \<open>__proto__\<close>, which reads as the prototype itself.
\<close>

definition object_proto_functions :: "(string \<times> jsval) list" where
  "object_proto_functions =
    [(''constructor'', Fn 1), (''toString'', Fn 0), (''toLocaleString'', Fn 0),
     (''valueOf'', Fn 0), (''hasOwnProperty'', Fn 1), (''isPrototypeOf'', Fn 1),
     (''propertyIsEnumerable'', Fn 1), (''__defineGetter__'', Fn 2),
     (''__defineSetter__'', Fn 2), (''__lookupGetter__'', Fn 1),
     (''__lookupSetter__'', Fn 1)]"

definition object_proto :: "(string \<times> jsval) list" where
  "object_proto = object_proto_functions @ [(''__proto__'', Obj object_proto_functions)]"

text \<open>\<open>k in o\<close> for an object literal \<open>o\<close>: an own key or an inherited member.\<close>

definition has_key :: "(string \<times> jsval) list \<Rightarrow> string \<Rightarrow> bool" where
  "has_key kvs k = (if k \<in> set (map fst kvs) then True else k \<in> set (map fst object_proto))"

text \<open>\<open>o[k]\<close> for an object literal \<open>o\<close>: the own value, else the inherited member.\<close>

definition member :: "(string \<times> jsval) list \<Rightarrow> string \<Rightarrow> jsval" where
  "member kvs k = (if k \<in> set (map fst kvs) then lookup kvs k else lookup object_proto k)"

definition is_primitive :: "jsval \<Rightarrow> bool" where
  "is_primitive v = (case v of
      Undefined \<Rightarrow> True | Null \<Rightarrow> True | JBool b \<Rightarrow> True | Num n \<Rightarrow> True | Str s \<Rightarrow> True
    | _ \<Rightarrow> False)"

text \<open>
  \<open>v instanceof ty\<close>.  It throws (\<open>None\<close>) when \<open>ty\<close> is not a function, and it is
  false for every primitive \<open>v\<close>.  For an object \<open>v\<close> the walk along its prototype
  chain is the language's and is the parameter \<open>inst\<close>, which may throw as well (the
  function's \<open>prototype\<close> is not an object).
\<close>

definition instance_of ::
  "(jsval \<Rightarrow> jsval \<Rightarrow> bool option) \<Rightarrow> jsval \<Rightarrow> jsval \<Rightarrow> bool option"
where
  "instance_of inst v ty = (case ty of
      Fn n \<Rightarrow> (if is_primitive v then Some False else inst v ty)
    | _ \<Rightarrow> None)"

text \<open>
  The walk over \<open>this.schema.props\<close>, given in enumeration order: a declared property
  that is \<open>in this.__data\<close> and whose value is not \<open>instanceof\<close> its declared type ends
  the walk with an error naming it; an \<open>instanceof\<close> that throws ends it with no
  callback at all.
\<close>

fun validate_props ::
  "(jsval \<Rightarrow> jsval \<Rightarrow> bool option) \<Rightarrow> (string \<times> jsval) list \<Rightarrow> (string \<times> jsval) list
     \<Rightarrow> actual \<Rightarrow> world \<Rightarrow> world"
where
  "validate_props inst [] kvs callback w = invoke callback [Null] w"
| "validate_props inst ((prop, ty) # ps) kvs callback w =
    (if has_key kvs prop then
       (case instance_of inst (member kvs prop) ty of
          None \<Rightarrow> throw ''TypeError: instanceof cannot be evaluated'' w
        | Some ok \<Rightarrow>
            (if ok then validate_props inst ps kvs callback w
             else invoke callback [Error (''Mis-match type: '' @ prop)] w))
     else validate_props inst ps kvs callback w)"

definition validate_legacy ::
  "(jsval \<Rightarrow> jsval \<Rightarrow> bool option) \<Rightarrow> legacy_document \<Rightarrow> actual \<Rightarrow> world \<Rightarrow> world"
where
  "validate_legacy inst this callback w =
     validate_props inst (schema_props this) (field_map this) callback w"

text \<open>
  A declared property passes when it is not in the field map, or is there with a value
  of its declared type.
\<close>

definition passes ::
  "(jsval \<Rightarrow> jsval \<Rightarrow> bool option) \<Rightarrow> (string \<times> jsval) list \<Rightarrow> string \<times> jsval \<Rightarrow> bool"
where
  "passes inst kvs decl =
     (if has_key kvs (fst decl) then instance_of inst (member kvs (fst decl)) (snd decl) = Some True
      else True)"

section \<open>The query builder\<close>

record options =
  o_limit :: jsval
  o_skip :: jsval
  o_fields :: jsval
  o_lean :: jsval
  o_populate :: jsval
  o_sort :: jsval
  o_count :: jsval

text \<open>
  A model: the constructor function with its \<open>_index\<close> and \<open>_type\<close>.  The constructor is
  built by the schema module and is a parameter here (\<open>construct m item\<close> is
  \<open>new model(item)\<close>).
\<close>

record model =
  m_index :: jsval
  m_type :: jsval
  construct :: "jsval \<Rightarrow> jsval document"

record query =
  q_query :: jsval
  q_model :: model
  q_options :: options

definition new_Query :: "jsval \<Rightarrow> model \<Rightarrow> query" where
  "new_Query qry m =
    \<lparr>q_query = (if truthy qry then qry else Obj []),
     q_model = m,
     q_options = \<lparr>o_limit = Num 10, o_skip = Num 0, o_fields = JBool True,
                  o_lean = JBool False, o_populate = Str [], o_sort = Obj [],
                  o_count = Undefined\<rparr>\<rparr>"

text \<open>\<open>s.split(/\s+/)\<close>: cut at every maximal run of white space.\<close>

definition is_space :: "char \<Rightarrow> bool" where
  "is_space c = ((of_char c :: nat) = 32 \<or> (9 \<le> (of_char c :: nat) \<and> (of_char c :: nat) \<le> 13))"

fun split_go :: "bool \<Rightarrow> string \<Rightarrow> string \<Rightarrow> string list" where
  "split_go skipping cur [] = [rev cur]"
| "split_go skipping cur (c # cs) =
    (if is_space c then
       (if skipping then split_go True cur cs else rev cur # split_go True [] cs)
     else split_go False (c # cur) cs)"

definition split_ws :: "string \<Rightarrow> string list" where
  "split_ws s = split_go False [] s"

text \<open>\<open>s.split(".")\<close>, and in general at one separator character.\<close>

fun split_at :: "char \<Rightarrow> string \<Rightarrow> string \<Rightarrow> string list" where
  "split_at sep cur [] = [rev cur]"
| "split_at sep cur (c # cs) =
    (if c = sep then rev cur # split_at sep [] cs else split_at sep (c # cur) cs)"

text \<open>Decimal numerals, for array indices used as keys and for \<open>String(n)\<close>.\<close>

fun show_nat :: "nat \<Rightarrow> string" where
  "show_nat n = (if n < 10 then [char_of (48 + n)]
                 else show_nat (n div 10) @ [char_of (48 + n mod 10)])"

declare show_nat.simps [simp del]

definition show_int :: "int \<Rightarrow> string" where
  "show_int i = (if i < 0 then CHR ''-'' # show_nat (nat (- i)) else show_nat (nat i))"

text \<open>
  \<open>Object.keys\<close>: the own enumerable keys.  Those of an object literal in insertion
  order (an engine lists integer-like keys first; they are not reordered here), the
  indices of an array, none for a function or an error, the members and the two
  fields of a result set, the modelled properties of a document.  \<open>null\<close> and
  \<open>undefined\<close> throw, and so does any other primitive (ES5; later engines coerce a
  primitive instead).
\<close>

definition object_keys :: "jsval \<Rightarrow> string list option" where
  "object_keys v = (case v of
      Obj kvs \<Rightarrow> Some (map fst kvs)
    | Arr xs \<Rightarrow> Some (map show_nat [0..<length xs])
    | Fn n \<Rightarrow> Some []
    | Error m \<Rightarrow> Some []
    | DocV d \<Rightarrow> Some [''id'', ''version'', ''_index'', ''_type'', ''__origData'', ''__data'',
                      ''execQueue'']
    | ResultsV ds q \<Rightarrow> Some (map show_nat [0..<length ds] @ [''length'', ''execQueue''])
    | _ \<Rightarrow> None)"

text \<open>The direction of one sort entry.\<close>

definition sort_dir :: "jsval \<Rightarrow> jsval" where
  "sort_dir val =
    (if val = Str ''desc'' then Str ''desc''
     else if val = Str ''descending'' then Str ''desc''
     else if val = Num (- 1) then Str ''desc''
     else Str ''asc'')"

definition build_sort :: "jsval \<Rightarrow> string list \<Rightarrow> (string \<times> jsval) list" where
  "build_sort srt ks = foldl (\<lambda>acc key. put acc key (sort_dir (prop_of srt key))) [] ks"

text \<open>The chain methods: set one option, then run \<open>exec\<close> when a callback is given.\<close>

definition set_limit :: "jsval \<Rightarrow> query \<Rightarrow> query" where
  "set_limit num q = q\<lparr>q_options := (q_options q)\<lparr>o_limit := num\<rparr>\<rparr>"

definition set_skip :: "jsval \<Rightarrow> query \<Rightarrow> query" where
  "set_skip num q = q\<lparr>q_options := (q_options q)\<lparr>o_skip := num\<rparr>\<rparr>"

definition set_sort :: "jsval \<Rightarrow> query \<Rightarrow> query" where
  "set_sort v q = q\<lparr>q_options := (q_options q)\<lparr>o_sort := v\<rparr>\<rparr>"

definition set_fields :: "jsval \<Rightarrow> query \<Rightarrow> query" where
  "set_fields v q = q\<lparr>q_options := (q_options q)\<lparr>o_fields := v\<rparr>\<rparr>"

definition set_lean :: "query \<Rightarrow> query" where
  "set_lean q = q\<lparr>q_options := (q_options q)\<lparr>o_lean := JBool True\<rparr>\<rparr>"

definition set_populate :: "jsval \<Rightarrow> query \<Rightarrow> query" where
  "set_populate v q = q\<lparr>q_options := (q_options q)\<lparr>o_populate := v\<rparr>\<rparr>"

definition set_count :: "query \<Rightarrow> query" where
  "set_count q = q\<lparr>q_options := (q_options q)\<lparr>o_count := JBool True\<rparr>\<rparr>"

text \<open>
  The chain calls other than \<open>limit\<close> and \<open>skip\<close>, made without a callback, and a query
  after a sequence of them.
\<close>

datatype chain_call = CSort jsval | CSelect jsval | CLean | CPopulate jsval | CCount

definition chain_step :: "query \<Rightarrow> chain_call \<Rightarrow> query" where
  "chain_step q c = (case c of
      CSort v \<Rightarrow> set_sort v q
    | CSelect v \<Rightarrow> set_fields v q
    | CLean \<Rightarrow> set_lean q
    | CPopulate v \<Rightarrow> set_populate v q
    | CCount \<Rightarrow> set_count q)"

definition chained :: "chain_call list \<Rightarrow> query \<Rightarrow> query" where
  "chained cs q = foldl chain_step q cs"

text \<open>
  \<open>async.eachLimit\<close> over the members of a collection.  The library is external; it
  is modelled as the specification describes it: the members are visited in order, no
  further member is started once an error has been observed, the error is handed to
  the final callback, and success hands it no argument.  The limit on the calls in
  flight is not modelled: every completion arrives before the next statement runs.
  Each step returns the member as it left it.
\<close>

fun each_seq ::
  "('a \<Rightarrow> ('a \<Rightarrow> cont) \<Rightarrow> world \<Rightarrow> world) \<Rightarrow> 'a list \<Rightarrow> 'a list \<Rightarrow> ('a list \<Rightarrow> cont)
     \<Rightarrow> world \<Rightarrow> world"
where
  "each_seq f [] acc k w = k (rev acc) [] w"
| "each_seq f (x # xs) acc k w =
    f x (\<lambda>x' args w'.
           if truthy (arg 0 args) then k (rev acc @ x' # xs) [arg 0 args] w'
           else each_seq f xs (x' # acc) k w') w"

text \<open>\<open>single ? results[0] : results\<close>.\<close>

definition pick :: "bool \<Rightarrow> jsval \<Rightarrow> jsval option" where
  "pick single results = (if single then get_prop results ''0'' else Some results)"

text \<open>\<open>new Results(results, model)\<close>: \<open>results.forEach\<close> needs an array.\<close>

definition new_Results :: "jsval \<Rightarrow> model \<Rightarrow> jsval option" where
  "new_Results results m = (case results of
      Arr xs \<Rightarrow> Some (ResultsV (map (construct m) xs) [])
    | _ \<Rightarrow> None)"

text \<open>
  The request object of \<open>Query.prototype.exec\<close> and the client call it is sent with.
\<close>

definition build_request :: "query \<Rightarrow> jsval \<Rightarrow> (string \<times> jsval) list \<Rightarrow> client_op \<times> jsval" where
  "build_request q idv srt =
    (let opts = q_options q;
         flds = (case o_fields opts of Str s \<Rightarrow> Arr (map Str (split_ws s)) | v \<Rightarrow> v);
         body = (if truthy idv
                 then Obj [(''ids'', if is_array idv then Arr [idv] else idv)]
                 else Obj [(''query'', Obj [(''match'', q_query q)]), (''sort'', Obj srt)])
     in (if truthy idv then Mget else Search,
         Obj [(''index'', m_index (q_model q)), (''type'', m_type (q_model q)),
              (''from'', o_skip opts), (''size'', o_limit opts),
              (''fields'', flds), (''body'', body)]))"

text \<open>
  The completion function \<open>exec\<close> gives the client.  \<open>pop path item k\<close> is
  \<open>item.populate(path, callback)\<close>, tied to \<open>populate\<close> below.
\<close>

definition on_response ::
  "(jsval \<Rightarrow> jsval document \<Rightarrow> (jsval document \<Rightarrow> cont) \<Rightarrow> world \<Rightarrow> world)
     \<Rightarrow> query \<Rightarrow> bool \<Rightarrow> actual \<Rightarrow> cont"
where
  "on_response pop q single0 callback args w =
    (let err = arg 0 args; response = arg 1 args; opts = q_options q in
     if truthy err then invoke callback [err] w
     else (case get_prop response ''hits'' of
        None \<Rightarrow> throw ''TypeError: cannot read property hits'' w
      | Some h \<Rightarrow> (case get_prop h ''hits'' of
        None \<Rightarrow> throw ''TypeError: cannot read property hits'' w
      | Some hits \<Rightarrow>
         (let single = (if truthy (o_count opts) then False else single0);
              wrapped = (if truthy (o_count opts) then Some (prop_of h ''total'')
                         else if \<not> truthy (o_lean opts) then new_Results hits (q_model q)
                         else if truthy (o_populate opts) then new_Results hits (q_model q)
                         else Some hits)
          in (case wrapped of
             None \<Rightarrow> throw ''TypeError: results.forEach is not a function'' w
           | Some results \<Rightarrow>
              (if truthy (o_populate opts) \<and> \<not> truthy (o_count opts) then
                 (case results of
                    ResultsV ds qu \<Rightarrow>
                      each_seq (pop (o_populate opts)) ds []
                        (\<lambda>ds' args' w'.
                           (case pick single (ResultsV ds' qu) of
                              None \<Rightarrow> throw ''TypeError: cannot read property 0'' w'
                            | Some r \<Rightarrow> invoke callback [arg 0 args', r] w')) w
                  | _ \<Rightarrow> throw ''TypeError: not iterable'' w)
               else (case pick single results of
                       None \<Rightarrow> throw ''TypeError: cannot read property 0'' w
                     | Some r \<Rightarrow> invoke callback [err, r] w)))))))"

definition exec_with ::
  "(jsval \<Rightarrow> jsval document \<Rightarrow> (jsval document \<Rightarrow> cont) \<Rightarrow> world \<Rightarrow> world)
     \<Rightarrow> client \<Rightarrow> query \<Rightarrow> actual \<Rightarrow> world \<Rightarrow> world"
where
  "exec_with pop cl q callback w =
    (case get_prop (q_query q) ''id'' of
       None \<Rightarrow> throw ''TypeError: cannot read property id'' w
     | Some idv \<Rightarrow>
        (case object_keys (o_sort (q_options q)) of
           None \<Rightarrow> throw ''TypeError: Object.keys called on non-object'' w
         | Some ks \<Rightarrow>
            (let req = build_request q idv (build_sort (o_sort (q_options q)) ks)
             in client_call cl (fst req) (snd req)
                  (on_response pop q (is_string idv) callback) w)))"


section \<open>Populate\<close>

text \<open>
  \<open>String(v)\<close>, used on the populate path and on computed property keys.  The text of
  a function is not known to the model and is a fixed placeholder.
\<close>

fun join_comma :: "string list \<Rightarrow> string" where
  "join_comma [] = []"
| "join_comma [s] = s"
| "join_comma (s # t # ss) = s @ '','' @ join_comma (t # ss)"

fun to_string :: "jsval \<Rightarrow> string" where
  "to_string Undefined = ''undefined''"
| "to_string Null = ''null''"
| "to_string (JBool b) = (if b then ''true'' else ''false'')"
| "to_string (Num n) = show_int n"
| "to_string (Str s) = s"
| "to_string (Fn n) = ''function () { }''"
| "to_string (Error m) = (if m = [] then ''Error'' else ''Error: '' @ m)"
| "to_string (Arr xs) =
     join_comma (map (\<lambda>x. if x = Undefined then [] else if x = Null then [] else to_string x) xs)"
| "to_string (Obj kvs) = ''[object Object]''"
| "to_string (DocV d) = ''[object Object]''"
| "to_string (ResultsV ds q) = ''[object Object]''"

text \<open>
  The body of \<open>_populate\<close>: \<open>async.eachLimit(parts, 1, iterator, callback)\<close>, which
  re-reads \<open>parts.length\<close> before every step (async 0.9).

  \<^item> \<open>i\<close> is the number of steps completed, \<open>parts\<close> the array being visited,
    \<open>remaining\<close> and \<open>curObj\<close> the iterator's two captured variables.
  \<^item> \<open>remaining\<close> starts as the very array \<open>parts\<close> (\<open>aliased\<close>), so the first
    \<open>remaining.splice(1)\<close> also cuts \<open>parts\<close> down to its first element.
  \<^item> Each step first descends, \<open>curObj = curObj[prop]\<close>, and then inspects
    \<open>curObj[prop]\<close> of the descended object.
  \<^item> The iterator is not bound: its \<open>this\<close> is the host's global object and not the
    document, so \<open>this.model\<close> is \<open>undefined\<close> and \<open>this.model.findById\<close> throws, and
    inside the inner, bound iterator \<open>this._populate\<close> is \<open>undefined\<close> and calling it
    throws.  Over an empty array the inner \<open>eachLimit\<close> completes at once.
\<close>

function populate_loop ::
  "nat \<Rightarrow> string list \<Rightarrow> string list \<Rightarrow> bool \<Rightarrow> jsval \<Rightarrow> actual \<Rightarrow> world \<Rightarrow> world"
where
  "populate_loop i parts remaining aliased curObj callback w =
    (if length parts \<le> i then invoke_final callback [] w
     else if remaining = [] then
       populate_loop (Suc i) parts remaining aliased curObj callback w
     else
       (case get_prop curObj (parts ! i) of
          None \<Rightarrow> throw ''TypeError: cannot read property of undefined'' w
        | Some c1 \<Rightarrow>
           (case get_prop c1 (parts ! i) of
              None \<Rightarrow> throw ''TypeError: cannot read property of undefined'' w
            | Some v \<Rightarrow>
               (case v of
                  Arr xs \<Rightarrow>
                    (if is_string (prop_of v ''0'')
                     then throw ''TypeError: cannot read property findById of undefined'' w
                     else if xs = []
                     then populate_loop (Suc i) (if aliased then take 1 parts else parts)
                            [] False c1 callback w
                     else throw ''TypeError: this._populate is not a function'' w)
                | Str s \<Rightarrow> throw ''TypeError: cannot read property findById of undefined'' w
                | _ \<Rightarrow> populate_loop (Suc i) (if aliased then take 1 parts else parts)
                         (tl remaining) False v callback w))))"
  by pat_completeness auto
termination
  by (relation "measure (\<lambda>(i, parts, remaining, aliased, curObj, callback, w). length parts - i)")
     auto

declare populate_loop.simps [simp del]

definition populate_inner :: "jsval \<Rightarrow> string list \<Rightarrow> actual \<Rightarrow> world \<Rightarrow> world" where
  "populate_inner curObj parts callback w = populate_loop 0 parts parts True curObj callback w"

text \<open>
  \<open>populate(path, callback)\<close> of a document.  Without a callback it calls
  \<open>this.execQueue.push("populate", [path])\<close>, and \<open>push\<close> appends each of its
  arguments as an element.  The result is \<open>this\<close> as the call leaves it.
\<close>

definition populate :: "jsval document \<Rightarrow> jsval \<Rightarrow> actual \<Rightarrow> world \<Rightarrow> jsval document \<times> world" where
  "populate this path callback w =
    (if \<not> given callback
     then (Document (doc_id this) (doc_version this) (doc_index this) (doc_type this)
             (origData this) (data this) (execQueue this @ [Str ''populate'', Arr [path]]), w)
     else (this, populate_inner (data this) (split_at CHR ''.'' [] (to_string path)) callback w))"

text \<open>\<open>item.populate(path, callback)\<close> as \<open>Query.prototype.exec\<close> calls it on each result.\<close>

definition item_populate ::
  "jsval \<Rightarrow> jsval document \<Rightarrow> (jsval document \<Rightarrow> cont) \<Rightarrow> world \<Rightarrow> world"
where
  "item_populate path item k w =
     snd (populate item path (Fun (k item)) w)"

definition exec :: "client \<Rightarrow> query \<Rightarrow> actual \<Rightarrow> world \<Rightarrow> world" where
  "exec cl q callback w = exec_with item_populate cl q callback w"

section \<open>The statics of a model\<close>

text \<open>
  Each returns the query it built and the world after the call:
  \<open>callback ? q.exec(callback) : q\<close>.
\<close>

definition run :: "client \<Rightarrow> query \<Rightarrow> actual \<Rightarrow> world \<Rightarrow> query \<times> world" where
  "run cl q callback w = (q, if given callback then exec cl q callback w else w)"

definition find_static :: "client \<Rightarrow> model \<Rightarrow> jsval \<Rightarrow> actual \<Rightarrow> world \<Rightarrow> query \<times> world" where
  "find_static cl m qry callback w = run cl (new_Query qry m) callback w"

definition findOne :: "client \<Rightarrow> model \<Rightarrow> jsval \<Rightarrow> actual \<Rightarrow> world \<Rightarrow> query \<times> world" where
  "findOne cl m qry callback w = run cl (set_limit (Num 1) (new_Query qry m)) callback w"

definition findById :: "client \<Rightarrow> model \<Rightarrow> jsval \<Rightarrow> actual \<Rightarrow> world \<Rightarrow> query \<times> world" where
  "findById cl m ident callback w = run cl (new_Query (Obj [(''id'', ident)]) m) callback w"

text \<open>
  \<open>Query.prototype.count\<close> is declared \<open>function(query, callback)\<close>: its callback is
  its second parameter.
\<close>

definition query_count :: "client \<Rightarrow> query \<Rightarrow> actual list \<Rightarrow> world \<Rightarrow> query \<times> world" where
  "query_count cl q as w = run cl (set_count q) (pos 1 as) w"

text \<open>\<open>ModelStatics.count\<close>: \<open>callback ? q.count(callback) : q\<close>.\<close>

definition count_static :: "client \<Rightarrow> model \<Rightarrow> jsval \<Rightarrow> actual \<Rightarrow> world \<Rightarrow> query \<times> world" where
  "count_static cl m qry callback w =
    (if given callback then query_count cl (new_Query qry m) [callback] w
     else (new_Query qry m, w))"


section \<open>The deferred call queue\<close>

definition val_of :: "actual \<Rightarrow> jsval" where
  "val_of a = (case a of Val v \<Rightarrow> v | Fun k \<Rightarrow> Fn 2)"

text \<open>
  \<open>this._populate.apply(this, args)\<close>: \<open>async.eachLimit\<close> reads \<open>parts.length\<close>, ends at
  once when it is zero or missing, and the first step calls \<open>remaining.splice\<close>, which
  only an array has.
\<close>

definition populate_apply :: "actual list \<Rightarrow> world \<Rightarrow> world" where
  "populate_apply as w =
    (case val_of (pos 1 as) of
       Arr ps \<Rightarrow> populate_inner (val_of (pos 0 as)) (map to_string ps) (pos 2 as) w
     | Undefined \<Rightarrow> throw ''TypeError: cannot read property length of undefined'' w
     | Null \<Rightarrow> throw ''TypeError: cannot read property length of null'' w
     | v \<Rightarrow> (if truthy (js_length v) then throw ''TypeError: remaining.splice is not a function'' w
             else invoke_final (pos 2 as) [] w))"

text \<open>
  One step of \<open>exec\<close>'s replay, \<open>this[call[0]].apply(this, call[1].concat([callback]))\<close>,
  for the members of the prototype that do not replay the queue themselves.
  \<open>diff\<close> and \<open>hasChanged\<close> take no callback and simply return.  A name that is not
  a member function reads a property of the document, which has no \<open>apply\<close> to call.
\<close>

definition doc_apply ::
  "client \<Rightarrow> jsval \<Rightarrow> jsval document \<Rightarrow> string \<Rightarrow> actual list \<Rightarrow> world \<Rightarrow> world"
where
  "doc_apply cl dif this name as w =
    (if name = ''populate'' then snd (populate this (val_of (pos 0 as)) (pos 1 as) w)
     else if name = ''save'' then save cl dif this (pos 0 as) w
     else if name = ''update'' then update cl dif this (val_of (pos 0 as)) (pos 1 as) w
     else if name = ''remove'' then remove cl this (pos 0 as) w
     else if name = ''validate'' then validate this (pos 0 as) w
     else if name = ''_populate'' then populate_apply as w
     else if name = ''diff'' then w
     else if name = ''hasChanged'' then w
     else throw ''TypeError: cannot call apply of a non-function'' w)"

text \<open>
  \<open>exec(callback)\<close> of a document: \<open>async.eachLimit(this.execQueue, 1, ...)\<close>.  An entry
  named \<open>exec\<close> replays the whole queue again, nested inside the current call;
  \<open>depth\<close> is the room left on the call stack, and the engine throws a \<open>RangeError\<close>
  when it is used up.
\<close>

function doc_replay ::
  "client \<Rightarrow> jsval \<Rightarrow> jsval document \<Rightarrow> nat \<Rightarrow> jsval list \<Rightarrow> actual \<Rightarrow> world \<Rightarrow> world"
where
  "doc_replay cl dif this depth [] callback w = invoke_final callback [] w"
| "doc_replay cl dif this depth (call # rest) callback w =
    (case get_prop call ''0'' of
       None \<Rightarrow> throw ''TypeError: cannot read property 0 of undefined'' w
     | Some key \<Rightarrow>
        (case prop_of call ''1'' of
           Arr args \<Rightarrow>
             (if to_string key = ''exec'' then
                (case depth of
                   0 \<Rightarrow> throw ''RangeError: Maximum call stack size exceeded'' w
                 | Suc d \<Rightarrow>
                     doc_replay cl dif this d (execQueue this)
                       (pos 0 (map Val args @
                          [Fun (\<lambda>res w'. if truthy (arg 0 res) then invoke_final callback [arg 0 res] w'
                                         else doc_replay cl dif this depth rest callback w')])) w)
              else
                doc_apply cl dif this (to_string key)
                  (map Val args @
                     [Fun (\<lambda>res w'. if truthy (arg 0 res) then invoke_final callback [arg 0 res] w'
                                    else doc_replay cl dif this depth rest callback w')]) w)
         | _ \<Rightarrow> throw ''TypeError: cannot build the argument list'' w))"
  by pat_completeness auto
termination
  by (relation "measures [\<lambda>(cl, dif, this, depth, calls, callback, w). depth,
                          \<lambda>(cl, dif, this, depth, calls, callback, w). length calls]")
     auto

definition doc_exec ::
  "client \<Rightarrow> jsval \<Rightarrow> nat \<Rightarrow> jsval document \<Rightarrow> actual \<Rightarrow> world \<Rightarrow> world"
where
  "doc_exec cl dif depth this callback w =
     doc_replay cl dif this depth (execQueue this) callback w"

section \<open>Result sets\<close>

text \<open>
  A result set is its members and its queue.  Each verb either queues itself with
  \<open>this.execQueue.push(name, args)\<close> or applies the verb to every member.
\<close>

type_synonym results = "jsval document list \<times> jsval list"

definition each_done :: "actual \<Rightarrow> jsval document list \<Rightarrow> cont" where
  "each_done callback ds args w =
     (if truthy (arg 0 args) then invoke_final callback [arg 0 args] w
      else invoke_final callback [] w)"

definition results_populate :: "results \<Rightarrow> jsval \<Rightarrow> actual \<Rightarrow> world \<Rightarrow> results \<times> world" where
  "results_populate this opts callback w =
    (if \<not> given callback then ((fst this, snd this @ [Str ''populate'', Arr [opts]]), w)
     else (this, each_seq (item_populate opts) (fst this) [] (each_done callback) w))"

definition results_save :: "client \<Rightarrow> jsval \<Rightarrow> results \<Rightarrow> actual \<Rightarrow> world \<Rightarrow> results \<times> world" where
  "results_save cl dif this callback w =
    (if \<not> given callback then ((fst this, snd this @ [Str ''save'', Arr []]), w)
     else (this, each_seq (\<lambda>item k. save cl dif item (Fun (k item))) (fst this) []
                   (each_done callback) w))"

definition results_update ::
  "client \<Rightarrow> jsval \<Rightarrow> results \<Rightarrow> jsval \<Rightarrow> actual \<Rightarrow> world \<Rightarrow> results \<times> world"
where
  "results_update cl dif this dat callback w =
    (if \<not> given callback then ((fst this, snd this @ [Str ''update'', Arr [dat]]), w)
     else (this, each_seq (\<lambda>item k. update cl dif item dat (Fun (k item))) (fst this) []
                   (each_done callback) w))"

definition results_remove :: "client \<Rightarrow> results \<Rightarrow> actual \<Rightarrow> world \<Rightarrow> results \<times> world" where
  "results_remove cl this callback w =
    (if \<not> given callback then ((fst this, snd this @ [Str ''remove'', Arr []]), w)
     else (this, each_seq (\<lambda>item k. remove cl item (Fun (k item))) (fst this) []
                   (each_done callback) w))"


section \<open>Vocabulary of the statements and example inputs\<close>

text \<open>\<open>response.hits.hits\<close>, when both reads succeed.\<close>

definition hits_of :: "jsval \<Rightarrow> jsval option" where
  "hits_of response =
     (case get_prop response ''hits'' of None \<Rightarrow> None | Some h \<Rightarrow> get_prop h ''hits'')"

text \<open>The match criteria's \<open>id\<close> field as \<open>exec\<close> reads it.\<close>

definition criteria_id :: "query \<Rightarrow> jsval" where
  "criteria_id q = prop_of (q_query q) ''id''"

text \<open>The request a freshly built query sends (its sort option is still empty).\<close>

definition fresh_request :: "jsval \<Rightarrow> model \<Rightarrow> client_op \<times> jsval" where
  "fresh_request qry m = build_request (new_Query qry m) (criteria_id (new_Query qry m)) []"

text \<open>
  A document loaded with \<open>{title: "A"}\<close> and not touched since; a client whose every
  call fails; a client that answers every call with one hit; a model; and an
  \<open>instanceof\<close> for a schema whose declared type is \<open>Array\<close>.
\<close>

definition sample_doc :: "jsval document" where
  "sample_doc = Document (Str ''42'') (Num 1) (Str ''posts'') (Str ''post'')
     (Obj [(''title'', Str ''A'')]) (Obj [(''title'', Str ''A'')]) []"

definition author_doc :: "jsval document" where
  "author_doc = Document (Str ''1'') (Num 1) (Str ''posts'') (Str ''post'')
     (Obj [(''author'', Str ''id1'')]) (Obj [(''author'', Str ''id1'')]) []"

definition nested_doc :: "jsval document" where
  "nested_doc = Document (Str ''1'') (Num 1) (Str ''posts'') (Str ''post'')
     (Obj [(''a'', Obj [(''a'', Str ''id1'')])]) (Obj [(''a'', Obj [(''a'', Str ''id1'')])]) []"

definition no_id_doc :: "jsval document" where
  "no_id_doc = Document Undefined (Num 1) (Str ''posts'') (Str ''post'') (Obj []) (Obj []) []"

definition failing_client :: client where
  "failing_client m params = (Error ''boom'', Undefined)"

definition one_hit_client :: client where
  "one_hit_client m params =
     (Null, Obj [(''hits'', Obj [(''hits'', Arr [Obj [(''_id'', Str ''X'')]]), (''total'', Num 1)])])"

definition sample_construct :: "jsval \<Rightarrow> jsval document" where
  "sample_construct hit =
     Document (prop_of hit ''_id'') Undefined (Str ''posts'') (Str ''post'') hit hit []"

definition sample_model :: model where
  "sample_model = \<lparr>m_index = Str ''posts'', m_type = Str ''post'', construct = sample_construct\<rparr>"

definition array_instance :: "jsval \<Rightarrow> jsval \<Rightarrow> bool option" where
  "array_instance v ty = Some (is_array v)"

definition legacy_doc :: legacy_document where
  "legacy_doc = \<lparr>schema_props = [(''tags'', Fn 1), (''title'', Fn 1), (''toString'', Fn 1)],
                 field_map = [(''title'', Str ''A'')]\<rparr>"

text \<open>
  Whether \<open>exec\<close> runs the populate pass over its results, and the value \<open>exec\<close> hands
  to its callback when it does not: \<open>h\<close> is \<open>response.hits\<close>, \<open>xs\<close> the hits.
\<close>

definition populates :: "query \<Rightarrow> bool" where
  "populates q = (truthy (o_populate (q_options q)) \<and> \<not> truthy (o_count (q_options q)))"

definition result_value :: "query \<Rightarrow> jsval \<Rightarrow> jsval \<Rightarrow> jsval list \<Rightarrow> jsval" where
  "result_value q idv h xs =
    (if truthy (o_count (q_options q)) then prop_of h ''total''
     else if truthy (o_lean (q_options q)) \<and> \<not> truthy (o_populate (q_options q))
       then (if is_string idv then (if xs = [] then Undefined else hd xs) else Arr xs)
     else (if is_string idv
           then (if xs = [] then Undefined else DocV (construct (q_model q) (hd xs)))
           else ResultsV (map (construct (q_model q)) xs) []))"

text \<open>The request \<open>exec\<close> builds for a query whose sort option has the keys \<open>ks\<close>.\<close>

definition sent_request :: "query \<Rightarrow> jsval \<Rightarrow> string list \<Rightarrow> client_op \<times> jsval" where
  "sent_request q idv ks = build_request q idv (build_sort (o_sort (q_options q)) ks)"

section \<open>Basic facts\<close>

lemma world0_simps [simp]:
  "sent world0 = []" "called world0 = []" "thrown world0 = []"
  by (simp_all add: world0_def)

lemma user_cb_simps [simp]:
  "sent (user_cb args w) = sent w"
  "called (user_cb args w) = called w @ [args]"
  "thrown (user_cb args w) = thrown w"
  by (simp_all add: user_cb_def)

lemma throw_simps [simp]:
  "sent (throw msg w) = sent w"
  "called (throw msg w) = called w"
  "thrown (throw msg w) = thrown w @ [msg]"
  by (simp_all add: throw_def)

lemma invoke_Fun [simp]: "invoke (Fun k) args w = k args w"
  by (simp add: invoke_def)

lemma invoke_final_Fun [simp]: "invoke_final (Fun k) args w = k args w"
  by (simp add: invoke_final_def)

lemma invoke_Val [simp]:
  "invoke (Val v) args w = throw ''TypeError: callback is not a function'' w"
  by (simp add: invoke_def)

lemma arg_simps [simp]:
  "arg 0 [] = Undefined" "arg 0 (x # xs) = x"
  "arg (Suc 0) [] = Undefined" "arg (Suc 0) [x] = Undefined" "arg (Suc 0) (x # y # ys) = y"
  by (simp_all add: arg_def)

lemma truthy_simps [simp]:
  "truthy Undefined = False" "truthy Null = False" "truthy (JBool b) = b"
  "truthy (Num n) = (n \<noteq> 0)" "truthy (Str s) = (s \<noteq> [])" "truthy (Fn k) = True"
  "truthy (Error e) = True" "truthy (Arr xs) = True" "truthy (Obj kvs) = True"
  "truthy (DocV d) = True" "truthy (ResultsV ds qu) = True"
  by (simp_all add: truthy_def)

lemma nat_of_key_0 [simp]: "nat_of_key ''0'' = Some 0"
  by (simp add: nat_of_key_def is_digit_def)

lemma fresh_query_simps [simp]:
  "q_options (new_Query qry m) = \<lparr>o_limit = Num 10, o_skip = Num 0, o_fields = JBool True,
      o_lean = JBool False, o_populate = Str [], o_sort = Obj [], o_count = Undefined\<rparr>"
  "q_model (new_Query qry m) = m"
  "q_query (new_Query qry m) = (if truthy qry then qry else Obj [])"
  by (simp_all add: new_Query_def)

lemma get_prop_criteria:
  "get_prop (q_query (new_Query qry m)) ''id'' = Some (criteria_id (new_Query qry m))"
  by (cases qry) (simp_all add: get_prop_def criteria_id_def)

lemma criteria_id_Obj [simp]: "criteria_id (new_Query (Obj kvs) m) = lookup kvs ''id''"
  by (simp add: criteria_id_def prop_of_def)

subsection \<open>What the completion function of \<open>exec\<close> does for a fresh query\<close>

lemma pick_single_Results:
  "pick True (ResultsV ds qu) = Some (if ds = [] then Undefined else DocV (hd ds))"
  by (cases ds) (simp_all add: pick_def get_prop_def prop_of_def index_of_def)

lemma on_response_err:
  "truthy err \<Longrightarrow> on_response pop q single (Fun user_cb) [err, resp] w = user_cb [err] w"
  by (simp add: on_response_def Let_def)

lemma on_response_fresh_nohits:
  "\<not> truthy err \<Longrightarrow> hits_of resp = None \<Longrightarrow>
   on_response pop (new_Query qry m) True (Fun user_cb) [err, resp] w
     = throw ''TypeError: cannot read property hits'' w"
  by (cases "get_prop resp ''hits''") (simp_all add: on_response_def hits_of_def Let_def)

lemma on_response_fresh_arr:
  "\<not> truthy err \<Longrightarrow> hits_of resp = Some (Arr xs) \<Longrightarrow>
   on_response pop (new_Query qry m) True (Fun user_cb) [err, resp] w
     = user_cb [err, if xs = [] then Undefined else DocV (construct m (hd xs))] w"
  by (cases "get_prop resp ''hits''")
     (simp_all add: on_response_def hits_of_def new_Results_def pick_single_Results hd_map Let_def)

lemma on_response_fresh_other:
  "\<not> truthy err \<Longrightarrow> hits_of resp = Some v \<Longrightarrow> \<not> is_array v \<Longrightarrow>
   on_response pop (new_Query qry m) True (Fun user_cb) [err, resp] w
     = throw ''TypeError: results.forEach is not a function'' w"
  by (cases "get_prop resp ''hits''"; cases v)
     (simp_all add: on_response_def hits_of_def new_Results_def is_array_def Let_def)

lemma sent_on_response_fresh:
  "sent (on_response pop (new_Query qry m) single (Fun user_cb) [err, resp] w) = sent w"
  by (cases "get_prop resp ''hits''";
      cases "get_prop (the (get_prop resp ''hits'')) ''hits''";
      cases "new_Results (the (get_prop (the (get_prop resp ''hits'')) ''hits'')) m";
      cases "pick single
               (the (new_Results (the (get_prop (the (get_prop resp ''hits'')) ''hits'')) m))")
     (simp_all add: on_response_def Let_def)

lemma exec_fresh:
  "exec cl (new_Query qry m) cb w =
     client_call cl (fst (fresh_request qry m)) (snd (fresh_request qry m))
       (on_response item_populate (new_Query qry m)
          (is_string (criteria_id (new_Query qry m))) cb) w"
  unfolding exec_def exec_with_def get_prop_criteria fresh_request_def
  by (simp add: object_keys_def build_sort_def Let_def)

lemma sent_exec_fresh:
  "sent (exec cl (new_Query qry m) (Fun user_cb) world0) = [fresh_request qry m]"
  by (simp add: exec_fresh client_call_def sent_on_response_fresh)

subsection \<open>The populate loop sends nothing\<close>

lemma sent_populate_loop:
  "sent (populate_loop i parts remaining aliased curObj (Fun user_cb) w) = sent w"
proof (induction i parts remaining aliased curObj "Fun user_cb" w rule: populate_loop.induct)
  case (1 i parts remaining aliased curObj w)
  show ?case
    apply (subst populate_loop.simps)
    using 1
    apply (auto split: option.splits jsval.splits)
    done
qed


subsection \<open>The populate pass sends nothing, so \<open>exec\<close> sends exactly its one request\<close>

lemma sent_populate_loop_gen:
  assumes k: "\<And>a w. sent (k a w) = sent w"
  shows "sent (populate_loop i parts remaining aliased curObj (Fun k) w) = sent w"
proof (induction i parts remaining aliased curObj "Fun k" w rule: populate_loop.induct)
  case (1 i parts remaining aliased curObj w)
  show ?case
    apply (subst populate_loop.simps)
    using 1 k
    apply (auto split: option.splits jsval.splits)
    done
qed

lemma sent_item_populate:
  assumes "\<And>x a w. sent (k x a w) = sent w"
  shows "sent (item_populate p item k w) = sent w"
  using assms
  by (simp add: item_populate_def populate_def given_def populate_inner_def sent_populate_loop_gen)

lemma sent_each_seq_populate:
  assumes k: "\<And>xs a w. sent (k xs a w) = sent w"
  shows "sent (each_seq (item_populate p) ds acc k w) = sent w"
proof (induction ds arbitrary: acc w)
  case Nil
  show ?case by (simp add: k)
next
  case (Cons d ds)
  show ?case
    by (simp, rule sent_item_populate) (simp add: k Cons)
qed

lemma sent_on_response:
  "sent (on_response item_populate q single (Fun user_cb) [err, resp] w) = sent w"
proof -
  have fin: "\<And>qu s xs a w. sent ((\<lambda>ds' args' w'.
                           (case pick s (ResultsV ds' qu) of
                              None \<Rightarrow> throw ''TypeError: cannot read property 0'' w'
                            | Some r \<Rightarrow> invoke (Fun user_cb) [arg 0 args', r] w')) xs a w) = sent w"
    by (simp split: option.splits)
  show ?thesis
    unfolding on_response_def Let_def
    by (auto split: option.splits jsval.splits simp add: sent_each_seq_populate)
qed

lemma exec_general:
  assumes "get_prop (q_query q) ''id'' = Some idv"
      and "object_keys (o_sort (q_options q)) = Some ks"
  shows "exec cl q cb w =
     client_call cl (fst (build_request q idv (build_sort (o_sort (q_options q)) ks)))
       (snd (build_request q idv (build_sort (o_sort (q_options q)) ks)))
       (on_response item_populate q (is_string idv) cb) w"
  using assms by (simp add: exec_def exec_with_def Let_def)

lemma sent_exec_general:
  assumes "get_prop (q_query q) ''id'' = Some idv"
      and "object_keys (o_sort (q_options q)) = Some ks"
  shows "sent (exec cl q (Fun user_cb) world0)
           = [build_request q idv (build_sort (o_sort (q_options q)) ks)]"
  using assms by (simp add: exec_general client_call_def sent_on_response)

subsection \<open>What \<open>exec\<close> hands over without a populate pass\<close>

lemma pick_False [simp]: "pick False r = Some r"
  by (simp add: pick_def)

lemma pick_True_Arr:
  "pick True (Arr xs) = Some (if xs = [] then Undefined else hd xs)"
  by (cases xs) (simp_all add: pick_def get_prop_def prop_of_def index_of_def)

lemma on_response_result:
  assumes "\<not> truthy err" "\<not> populates q"
      and "get_prop resp ''hits'' = Some h" "get_prop h ''hits'' = Some (Arr xs)"
  shows "on_response pop q (is_string idv) (Fun user_cb) [err, resp] w
           = user_cb [err, result_value q idv h xs] w"
proof (cases "truthy (o_count (q_options q))")
  case True
  with assms show ?thesis
    by (simp add: on_response_def Let_def result_value_def)
next
  case nc: False
  with assms have np: "\<not> truthy (o_populate (q_options q))" by (simp add: populates_def)
  show ?thesis
  proof (cases "truthy (o_lean (q_options q))")
    case True
    with assms nc np show ?thesis
      by (cases "is_string idv")
         (simp_all add: on_response_def Let_def result_value_def pick_True_Arr)
  next
    case False
    with assms nc np show ?thesis
      by (cases "is_string idv")
         (simp_all add: on_response_def Let_def result_value_def new_Results_def
            pick_single_Results hd_map)
  qed
qed

lemma chain_step_keeps:
  "o_limit (q_options (chain_step q c)) = o_limit (q_options q)"
  "o_skip (q_options (chain_step q c)) = o_skip (q_options q)"
  "q_query (chain_step q c) = q_query q"
  "q_model (chain_step q c) = q_model q"
  by (cases c; simp add: chain_step_def set_sort_def set_fields_def set_lean_def
        set_populate_def set_count_def)+

lemma chained_keeps:
  "o_limit (q_options (chained cs q)) = o_limit (q_options q)"
  "o_skip (q_options (chained cs q)) = o_skip (q_options q)"
  "q_query (chained cs q) = q_query q"
  "q_model (chained cs q) = q_model q"
  unfolding chained_def
  by (induction cs arbitrary: q; simp add: chain_step_keeps)+

lemma request_paging:
  "prop_of (snd (build_request q idv srt)) ''size'' = o_limit (q_options q)"
  "prop_of (snd (build_request q idv srt)) ''from'' = o_skip (q_options q)"
  "fst (build_request q idv srt) = (if truthy idv then Mget else Search)"
  by (simp_all add: build_request_def Let_def prop_of_def)

lemma validate_props_pass:
  "list_all (passes inst kvs) ps \<Longrightarrow>
   validate_props inst (ps @ rest) kvs cb w = validate_props inst rest kvs cb w"
  by (induction ps) (auto simp add: passes_def)

section \<open>The claims\<close>

text \<open>
  C1. The claim: on a document with no changed field, \<open>save\<close> calls back with no error
  and sends nothing.  The code does not do this: \<open>hasChanged\<close> tests the imported
  function \<open>diff\<close> and its arity instead of calling \<open>this.diff()\<close>, so with any imported
  function of one or more parameters \<open>save\<close> sends one index request for every
  document, changed or not, and calls back with the client's answer and the document.
\<close>

theorem save_unchanged_still_writes:
  "sent (save cl (Fn (Suc n)) this (Fun user_cb) world0)
     = [(Index, Obj [(''index'', doc_index this), (''type'', doc_type this),
                     (''id'', doc_id this), (''body'', data this)])]
   \<and> called (save cl (Fn (Suc n)) this (Fun user_cb) world0)
     = [[fst (cl Index (Obj [(''index'', doc_index this), (''type'', doc_type this),
                     (''id'', doc_id this), (''body'', data this)])), DocV this]]"
  by (simp add: save_def hasChanged_def js_length_def gt_zero_def validate_def client_call_def)

text \<open>
  C2. The claim: a call without callback appends one (name, arguments) pair to the queue
  and \<open>exec\<close> replays the pairs in order.  The code does not do this:
  \<open>populate("a")\<close> without callback appends two entries, the string and the argument
  array; \<open>exec\<close> then reads \<open>call[0]\<close> of the string, finds no member function of that name and
  throws without sending anything or calling back; \<open>save()\<close> of a document without
  callback queues nothing, sends its index request at once and throws when the answer
  arrives; \<open>save()\<close> of a result set appends two entries as well.
\<close>

theorem queue_not_pairs:
  "execQueue (fst (populate sample_doc (Str ''a'') (Val Undefined) world0))
     = [Str ''populate'', Arr [Str ''a'']]
   \<and> called (doc_exec cl dif depth (fst (populate sample_doc (Str ''a'') (Val Undefined) world0))
        (Fun user_cb) world0) = []
   \<and> sent (doc_exec cl dif depth (fst (populate sample_doc (Str ''a'') (Val Undefined) world0))
        (Fun user_cb) world0) = []
   \<and> thrown (doc_exec cl dif depth (fst (populate sample_doc (Str ''a'') (Val Undefined) world0))
        (Fun user_cb) world0) \<noteq> []
   \<and> save cl (Fn 4) sample_doc (Val Undefined) world0
       = world0\<lparr>sent := [(Index, Obj [(''index'', Str ''posts''), (''type'', Str ''post''),
                                       (''id'', Str ''42''), (''body'', Obj [(''title'', Str ''A'')])])],
                 thrown := [''TypeError: callback is not a function'']\<rparr>
   \<and> snd (fst (results_save cl dif ([sample_doc], []) (Val Undefined) world0))
       = [Str ''save'', Arr []]"
  by (simp add: populate_def given_def sample_doc_def doc_exec_def get_prop_def prop_of_def
        index_of_def nat_of_key_def is_digit_def save_def hasChanged_def js_length_def gt_zero_def
        validate_def client_call_def results_save_def world0_def throw_def)

text \<open>
  C3. The claim: the multi-get ids are the id coerced to a sequence, a scalar wrapped
  as a one-element sequence and a sequence passed as it is.  The code has the two
  branches the other way round: the scalar \<open>"X"\<close> is sent bare, and the sequence
  \<open>["X", "Y"]\<close> is sent nested inside a one-element sequence.
\<close>

theorem ids_encoding:
  "sent (exec cl (new_Query (Obj [(''id'', Str ''X'')]) m) (Fun user_cb) world0)
     = [(Mget, Obj [(''index'', m_index m), (''type'', m_type m), (''from'', Num 0),
                    (''size'', Num 10), (''fields'', JBool True),
                    (''body'', Obj [(''ids'', Str ''X'')])])]
   \<and> sent (exec cl (new_Query (Obj [(''id'', Arr [Str ''X'', Str ''Y''])]) m) (Fun user_cb) world0)
     = [(Mget, Obj [(''index'', m_index m), (''type'', m_type m), (''from'', Num 0),
                    (''size'', Num 10), (''fields'', JBool True),
                    (''body'', Obj [(''ids'', Arr [Arr [Str ''X'', Str ''Y'']])])])]"
  by (simp add: sent_exec_fresh fresh_request_def build_request_def is_array_def Let_def)

text \<open>
  C4. \<open>find(criteria, callback)\<close> with a criteria whose \<open>id\<close> is a string: the callback is
  invoked with the client's error alone when there is one; otherwise, when the
  response carries an array of hits, with the document built from the first hit, or
  with \<open>undefined\<close> when the array is empty, also when there is exactly one hit.  It is
  never given a collection.  (A response without a hits array makes the code throw, and
  the callback is not invoked at all.)
\<close>

theorem find_scalar_id_single:
  assumes id: "lookup kvs ''id'' = Str s"
  shows "called (snd (find_static cl m (Obj kvs) (Fun user_cb) world0)) =
    (let req = fresh_request (Obj kvs) m;
         err = fst (cl (fst req) (snd req));
         resp = snd (cl (fst req) (snd req))
     in if truthy err then [[err]]
        else (case hits_of resp of
                Some (Arr xs) \<Rightarrow> [[err, if xs = [] then Undefined else DocV (construct m (hd xs))]]
              | _ \<Rightarrow> []))"
proof -
  let ?q = "new_Query (Obj kvs) m"
  let ?req = "fresh_request (Obj kvs) m"
  let ?err = "fst (cl (fst ?req) (snd ?req))"
  let ?resp = "snd (cl (fst ?req) (snd ?req))"
  let ?w1 = "world0\<lparr>sent := sent world0 @ [(fst ?req, snd ?req)]\<rparr>"
  have run: "snd (find_static cl m (Obj kvs) (Fun user_cb) world0)
      = on_response item_populate ?q True (Fun user_cb) [?err, ?resp] ?w1"
    by (simp add: find_static_def run_def given_def exec_fresh id is_string_def client_call_def)
  have w1: "called ?w1 = []" by simp
  show ?thesis
  proof (cases "truthy ?err")
    case True
    then show ?thesis by (simp add: run on_response_err w1 Let_def)
  next
    case False
    show ?thesis
    proof (cases "hits_of ?resp")
      case None
      with False show ?thesis by (simp add: run on_response_fresh_nohits w1 Let_def)
    next
      case (Some v)
      show ?thesis
      proof (cases "is_array v")
        case True
        then obtain xs where "v = Arr xs" by (cases v) (simp_all add: is_array_def)
        with False Some show ?thesis by (simp add: run on_response_fresh_arr w1 Let_def)
      next
        case na: False
        with False Some
        have "called (snd (find_static cl m (Obj kvs) (Fun user_cb) world0)) = []"
          by (simp add: run on_response_fresh_other w1)
        with False Some na show ?thesis by (cases v) (simp_all add: Let_def is_array_def)
      qed
    qed
  qed
qed

theorem find_scalar_id_single_witness:
  "lookup [(''id'', Str ''X'')] ''id'' = Str ''X''
   \<and> called (snd (find_static one_hit_client sample_model (Obj [(''id'', Str ''X'')])
               (Fun user_cb) world0))
       = [[Null, DocV (Document (Str ''X'') Undefined (Str ''posts'') (Str ''post'')
                        (Obj [(''_id'', Str ''X'')]) (Obj [(''_id'', Str ''X'')]) [])]]"
  using find_scalar_id_single [of "[(''id'', Str ''X'')]" "''X''" one_hit_client sample_model]
  by (simp add: one_hit_client_def sample_model_def sample_construct_def hits_of_def
        get_prop_def prop_of_def Let_def)

text \<open>
  C5. The claim: \<open>count(criteria, callback)\<close> resolves to the integer total.  The code
  does not resolve at all: the static \<open>count\<close> passes its callback as the only argument
  of \<open>Query.prototype.count\<close>, whose callback is its second parameter, so the query only
  gets its count flag set, no request is sent and the callback is never invoked.
  (\<open>exec\<close> of a query with the count flag does hand over the total, also for a string
  id: the last conjunct.)
\<close>

theorem count_never_calls_back:
  "snd (count_static cl m qry (Fun user_cb) world0) = world0
   \<and> o_count (q_options (fst (count_static cl m qry (Fun user_cb) world0))) = JBool True
   \<and> called (exec one_hit_client
                (set_count (new_Query (Obj [(''id'', Str ''X'')]) sample_model))
                (Fun user_cb) world0) = [[Null, Num 1]]"
proof (intro conjI)
  show "snd (count_static cl m qry (Fun user_cb) world0) = world0"
    by (simp add: count_static_def query_count_def given_def run_def pos_def)
  show "o_count (q_options (fst (count_static cl m qry (Fun user_cb) world0))) = JBool True"
    by (simp add: count_static_def query_count_def given_def run_def pos_def set_count_def)
  show "called (exec one_hit_client
                (set_count (new_Query (Obj [(''id'', Str ''X'')]) sample_model))
                (Fun user_cb) world0) = [[Null, Num 1]]"
    by (simp add: exec_def exec_with_def set_count_def get_prop_def prop_of_def object_keys_def
          build_sort_def client_call_def on_response_def one_hit_client_def pick_def Let_def
          is_string_def build_request_def)
qed





text \<open>
  C7, as the code has it.  \<open>save\<close>, \<open>update\<close> and \<open>remove\<close> invoke their callback exactly
  once.  So does \<open>exec\<close> of any query whose criteria and sort option can be read: with
  the error alone when the client reports one, and with the client's (unset) error
  and the result when the response carries an array of hits and no populate pass is
  run.  The callback gets no result with a missing-id error; after an index, update or
  delete request it gets the client's error, set or not, together with the document
  itself.
\<close>

theorem callbacks_once:
  "called (save cl dif this (Fun user_cb) world0) =
     [if hasChanged dif this
      then [fst (cl Index (Obj [(''index'', doc_index this), (''type'', doc_type this),
                                (''id'', doc_id this), (''body'', data this)])), DocV this]
      else []]
   \<and> called (update cl dif this dat (Fun user_cb) world0) =
     [if truthy (doc_id this)
      then (if hasChanged dif this
            then [fst (cl Update (Obj [(''index'', doc_index this), (''type'', doc_type this),
                                (''id'', doc_id this), (''version'', doc_version this),
                                (''body'', Obj [(''doc'', data this)])])), DocV this]
            else [])
      else [Error ''Cannot update: no ID specified.'']]
   \<and> called (remove cl this (Fun user_cb) world0) =
     [if truthy (doc_id this)
      then [fst (cl Delete (Obj [(''index'', doc_index this), (''type'', doc_type this),
                                 (''id'', doc_id this)])), DocV this]
      else [Error ''Cannot remove: no ID specified.'']]
   \<and> (get_prop (q_query q) ''id'' = Some idv \<and> object_keys (o_sort (q_options q)) = Some ks \<longrightarrow>
        (truthy (fst (cl (fst (sent_request q idv ks)) (snd (sent_request q idv ks)))) \<longrightarrow>
           called (exec cl q (Fun user_cb) world0)
             = [[fst (cl (fst (sent_request q idv ks)) (snd (sent_request q idv ks)))]])
      \<and> (\<not> truthy (fst (cl (fst (sent_request q idv ks)) (snd (sent_request q idv ks))))
           \<and> \<not> populates q
           \<and> get_prop (snd (cl (fst (sent_request q idv ks)) (snd (sent_request q idv ks)))) ''hits''
               = Some h
           \<and> get_prop h ''hits'' = Some (Arr xs) \<longrightarrow>
           called (exec cl q (Fun user_cb) world0)
             = [[fst (cl (fst (sent_request q idv ks)) (snd (sent_request q idv ks))),
                 result_value q idv h xs]]))"
proof (intro conjI impI)
  show "called (save cl dif this (Fun user_cb) world0) =
     [if hasChanged dif this
      then [fst (cl Index (Obj [(''index'', doc_index this), (''type'', doc_type this),
                                (''id'', doc_id this), (''body'', data this)])), DocV this]
      else []]"
    by (simp add: save_def validate_def client_call_def)
next
  show "called (update cl dif this dat (Fun user_cb) world0) =
     [if truthy (doc_id this)
      then (if hasChanged dif this
            then [fst (cl Update (Obj [(''index'', doc_index this), (''type'', doc_type this),
                                (''id'', doc_id this), (''version'', doc_version this),
                                (''body'', Obj [(''doc'', data this)])])), DocV this]
            else [])
      else [Error ''Cannot update: no ID specified.'']]"
    by (simp add: update_def validate_def client_call_def)
next
  show "called (remove cl this (Fun user_cb) world0) =
     [if truthy (doc_id this)
      then [fst (cl Delete (Obj [(''index'', doc_index this), (''type'', doc_type this),
                                 (''id'', doc_id this)])), DocV this]
      else [Error ''Cannot remove: no ID specified.'']]"
    by (simp add: remove_def client_call_def)
next
  assume q: "get_prop (q_query q) ''id'' = Some idv \<and> object_keys (o_sort (q_options q)) = Some ks"
     and "truthy (fst (cl (fst (sent_request q idv ks)) (snd (sent_request q idv ks))))"
  then show "called (exec cl q (Fun user_cb) world0)
             = [[fst (cl (fst (sent_request q idv ks)) (snd (sent_request q idv ks)))]]"
    by (simp add: exec_general client_call_def on_response_err sent_request_def)
next
  assume q: "get_prop (q_query q) ''id'' = Some idv \<and> object_keys (o_sort (q_options q)) = Some ks"
     and r: "\<not> truthy (fst (cl (fst (sent_request q idv ks)) (snd (sent_request q idv ks))))
           \<and> \<not> populates q
           \<and> get_prop (snd (cl (fst (sent_request q idv ks)) (snd (sent_request q idv ks)))) ''hits''
               = Some h
           \<and> get_prop h ''hits'' = Some (Arr xs)"
  have "exec cl q (Fun user_cb) world0 =
          on_response item_populate q (is_string idv) (Fun user_cb)
            [fst (cl (fst (sent_request q idv ks)) (snd (sent_request q idv ks))),
             snd (cl (fst (sent_request q idv ks)) (snd (sent_request q idv ks)))]
            (world0\<lparr>sent := sent world0 @ [(fst (sent_request q idv ks), snd (sent_request q idv ks))]\<rparr>)"
    using q by (simp add: exec_general client_call_def sent_request_def)
  with r show "called (exec cl q (Fun user_cb) world0)
             = [[fst (cl (fst (sent_request q idv ks)) (snd (sent_request q idv ks))),
                 result_value q idv h xs]]"
    by (simp add: on_response_result)
qed

theorem callbacks_once_witness:
  "called (save failing_client (Fn 4) no_id_doc (Fun user_cb) world0)
      = [[Error ''boom'', DocV no_id_doc]]
   \<and> called (update failing_client (Fn 4) no_id_doc (Obj []) (Fun user_cb) world0)
      = [[Error ''Cannot update: no ID specified.'']]
   \<and> called (remove failing_client no_id_doc (Fun user_cb) world0)
      = [[Error ''Cannot remove: no ID specified.'']]
   \<and> get_prop (q_query (set_lean (new_Query (Obj [(''title'', Str ''A'')]) sample_model))) ''id''
       = Some Undefined
   \<and> object_keys (o_sort (q_options (set_lean (new_Query (Obj [(''title'', Str ''A'')]) sample_model))))
       = Some []
   \<and> called (exec failing_client (set_lean (new_Query (Obj [(''title'', Str ''A'')]) sample_model))
        (Fun user_cb) world0) = [[Error ''boom'']]
   \<and> \<not> populates (new_Query (Obj [(''title'', Str ''A'')]) sample_model)
   \<and> called (exec one_hit_client (new_Query (Obj [(''title'', Str ''A'')]) sample_model)
        (Fun user_cb) world0)
      = [[Null, ResultsV [Document (Str ''X'') Undefined (Str ''posts'') (Str ''post'')
                            (Obj [(''_id'', Str ''X'')]) (Obj [(''_id'', Str ''X'')]) []] []]]"
  using callbacks_once [of failing_client "Fn 4" no_id_doc "Obj []"
      "set_lean (new_Query (Obj [(''title'', Str ''A'')]) sample_model)" Undefined "[]"]
    callbacks_once [of one_hit_client "Fn 4" no_id_doc "Obj []"
      "new_Query (Obj [(''title'', Str ''A'')]) sample_model" Undefined "[]"
      "Obj [(''hits'', Arr [Obj [(''_id'', Str ''X'')]]), (''total'', Num 1)]"
      "[Obj [(''_id'', Str ''X'')]]"]
  by (simp add: failing_client_def one_hit_client_def hasChanged_def js_length_def gt_zero_def
        no_id_doc_def set_lean_def get_prop_def prop_of_def object_keys_def populates_def
        result_value_def is_string_def sample_model_def sample_construct_def)

text \<open>
  C7 as stated fails: when the index request of \<open>save\<close> fails, the callback receives
  the error and, as result, the document, which is not \<open>undefined\<close>.
\<close>

theorem result_with_error_counterexample:
  "called (save failing_client (Fn 4) sample_doc (Fun user_cb) world0)
     = [[Error ''boom'', DocV sample_doc]]
   \<and> truthy (Error ''boom'') \<and> DocV sample_doc \<noteq> Undefined"
  by (simp add: save_def hasChanged_def js_length_def gt_zero_def validate_def
      client_call_def failing_client_def)

text \<open>
  C8. \<open>update(data, callback)\<close> on a document whose id is absent (any falsy id) calls
  back once with the error \<open>Cannot update: no ID specified.\<close> and nothing else
  happens: no request is sent, whatever the data, the client and the import are.
\<close>

theorem update_without_id:
  assumes "\<not> truthy (doc_id this)"
  shows "update cl dif this dat (Fun user_cb) w
           = w\<lparr>called := called w @ [[Error ''Cannot update: no ID specified.'']]\<rparr>"
  using assms by (simp add: update_def user_cb_def)

theorem update_without_id_witness:
  "\<not> truthy (doc_id no_id_doc)
   \<and> update one_hit_client (Fn 4) no_id_doc (Obj [(''title'', Str ''B'')]) (Fun user_cb) world0
       = world0\<lparr>called := [[Error ''Cannot update: no ID specified.'']]\<rparr>"
  using update_without_id [of no_id_doc one_hit_client "Fn 4" "Obj [(''title'', Str ''B'')]" world0]
  by (simp add: no_id_doc_def)

text \<open>
  C9. The claim: a segment whose value is a foreign id is fetched and replaced by the
  fetched document.  The code does not do this.  For every document and path,
  \<open>populate\<close> sends no request and leaves the document as it was.  On \<open>{author: "id1"}\<close>
  with path \<open>author\<close> the step descends into the id before it inspects it, finds
  nothing to resolve and calls back with no error.  On \<open>{a: {a: "id1"}}\<close> with path
  \<open>a\<close> the step reaches the fetch, but \<open>this\<close> is not the document there, so the call
  throws and the callback is never invoked.
\<close>

theorem populate_fetches_nothing:
  "sent (snd (populate this path (Fun user_cb) w)) = sent w
   \<and> fst (populate this path (Fun user_cb) w) = this
   \<and> snd (populate author_doc (Str ''author'') (Fun user_cb) world0) = world0\<lparr>called := [[]]\<rparr>
   \<and> snd (populate nested_doc (Str ''a'') (Fun user_cb) world0)
       = world0\<lparr>thrown := [''TypeError: cannot read property findById of undefined'']\<rparr>"
proof (intro conjI)
  show "sent (snd (populate this path (Fun user_cb) w)) = sent w"
    by (simp add: populate_def given_def populate_inner_def sent_populate_loop)
  show "fst (populate this path (Fun user_cb) w) = this"
    by (simp add: populate_def given_def)
  show "snd (populate author_doc (Str ''author'') (Fun user_cb) world0)
          = world0\<lparr>called := [[]]\<rparr>"
    by (simp add: populate_def given_def populate_inner_def populate_loop.simps get_prop_def
          prop_of_def index_of_def nat_of_key_def is_digit_def user_cb_def world0_def
          author_doc_def)
  show "snd (populate nested_doc (Str ''a'') (Fun user_cb) world0)
          = world0\<lparr>thrown := [''TypeError: cannot read property findById of undefined'']\<rparr>"
    by (simp add: populate_def given_def populate_inner_def populate_loop.simps get_prop_def
          prop_of_def throw_def world0_def nested_doc_def)
qed




end
